theory Spec2Isabelle
  imports Complex_Main
begin

section \<open>Vector algebra (RayTracing.cpp, lines 10-62)\<close>

text \<open>
  The components of a \<open>Vector3\<close> are C++ \<open>float\<close>s. They are modelled by \<open>real\<close>:
  every operation returns the exact result, where the program rounds it to a
  \<open>float\<close>, overflows to an infinity or produces a NaN. Every comparison and every
  branch of the source is kept as written. The theorems below are about that
  branch structure: which return is taken, which record is kept, which terms enter
  the colour. They use the arithmetic only through the values that the functions
  compute and compare. What a computed number is worth (that a normalised vector
  has length one, that a reflected vector mirrors the normal component) is exact
  in this model and only approximate in the program; no theorem below states it.

  \<open>EPSILON\<close> is the \<open>float\<close> that \<open>1e-5f\<close> denotes. The other decimal literals
  (\<open>1e-8\<close>, \<open>0.3f\<close>, \<open>0.7f\<close>, ...) are written as the decimals: the strict
  comparisons \<open>fabs(s) < 1e-8\<close>, \<open>len > 1e-8\<close> and \<open>x > 0.7f\<close> come out the same on
  every \<open>float\<close>, since no \<open>float\<close> lies between such a literal and the \<open>float\<close> or
  \<open>double\<close> that stands for it.
\<close>

datatype Vector3 = Vector3 (x: real) (y: real) (z: real)

text \<open>\<open>operator+\<close>, binary \<open>operator-\<close>, \<open>operator*\<close> by a scalar, unary \<open>operator-\<close>.\<close>

definition vadd :: "Vector3 \<Rightarrow> Vector3 \<Rightarrow> Vector3" where
  "vadd a b = Vector3 (x a + x b) (y a + y b) (z a + z b)"

definition vsub :: "Vector3 \<Rightarrow> Vector3 \<Rightarrow> Vector3" where
  "vsub a b = Vector3 (x a - x b) (y a - y b) (z a - z b)"

definition vscale :: "Vector3 \<Rightarrow> real \<Rightarrow> Vector3" where
  "vscale a s = Vector3 (x a * s) (y a * s) (z a * s)"

definition vneg :: "Vector3 \<Rightarrow> Vector3" where
  "vneg a = Vector3 (- x a) (- y a) (- z a)"

text \<open>\<open>operator/\<close>: \<open>if (fabs(s) < 1e-8) return *this;\<close> guards the quotient.\<close>

definition vdiv :: "Vector3 \<Rightarrow> real \<Rightarrow> Vector3" where
  "vdiv a s = (if \<bar>s\<bar> < 1 / 10 ^ 8 then a else Vector3 (x a / s) (y a / s) (z a / s))"

definition dot :: "Vector3 \<Rightarrow> Vector3 \<Rightarrow> real" where
  "dot a b = x a * x b + y a * y b + z a * z b"

definition length_vec :: "Vector3 \<Rightarrow> real" where
  "length_vec a = sqrt (dot a a)"

definition normalize_vec :: "Vector3 \<Rightarrow> Vector3" where
  "normalize_vec a = (let len = length_vec a in if len > 1 / 10 ^ 8 then vdiv a len else a)"

definition cross :: "Vector3 \<Rightarrow> Vector3 \<Rightarrow> Vector3" where
  "cross a b = Vector3 (y a * z b - z a * y b) (z a * x b - x a * z b) (x a * y b - y a * x b)"

definition reflect :: "Vector3 \<Rightarrow> Vector3 \<Rightarrow> Vector3" where
  "reflect incident n = vsub incident (vscale n (2 * dot incident n))"

section \<open>Rays, triangles and hit records (lines 64-92)\<close>

record Ray =
  origin :: Vector3
  direction :: Vector3

definition pointAt :: "Ray \<Rightarrow> real \<Rightarrow> Vector3" where
  "pointAt ray t = vadd (origin ray) (vscale (direction ray) t)"

datatype Triangle =
  Triangle (v0: Vector3) (v1: Vector3) (v2: Vector3) (color: Vector3) (doubleSided: bool)

text \<open>
  \<open>const Triangle* triangle\<close> points into the scene, which is read-only during a
  render: the pointer is modelled by the triangle it points to, \<open>nullptr\<close> by \<open>None\<close>.
\<close>

record HitRecord =
  position :: Vector3
  normal :: Vector3
  distance :: real
  triangle :: "Triangle option"

definition FLT_MAX :: real where
  "FLT_MAX = 340282346638528859811704183484516925440"

text \<open>The default constructor \<open>HitRecord()\<close>; the two vectors are \<open>Vector3()\<close>.\<close>

definition HitRecord0 :: HitRecord where
  "HitRecord0 = \<lparr>position = Vector3 0 0 0, normal = Vector3 0 0 0,
                  distance = FLT_MAX, triangle = None\<rparr>"

text \<open>
  \<open>const float EPSILON = 1e-5f\<close>: the \<open>float\<close> nearest to \<open>1e-5\<close>, which is
  \<open>2748779 / 2\<^sup>3\<^sup>8\<close>, a little less than \<open>1e-5\<close>.
\<close>

definition EPSILON :: real where
  "EPSILON = 2748779 / 2 ^ 38"

section \<open>The intersector (lines 94-133)\<close>

text \<open>
  \<open>intersectTriangle\<close> takes the hit record by reference and returns a \<open>bool\<close>; the
  model returns the pair of the \<open>bool\<close> and the record as the call leaves it.

  For \<open>a = 0\<close> on a double-sided triangle the source computes \<open>f = 1.0f / a\<close>, an
  infinity, so that \<open>t\<close> is infinite or NaN and \<open>t < hit.distance\<close> fails; HOL's
  \<open>1 / 0 = 0\<close> gives \<open>t = 0\<close> and \<open>t > EPSILON\<close> fails. Both return \<open>false\<close>.
\<close>

definition intersectTriangle :: "Triangle \<Rightarrow> Ray \<Rightarrow> HitRecord \<Rightarrow> bool \<times> HitRecord" where
  "intersectTriangle tri ray hit =
    (let edge1 = vsub (v1 tri) (v0 tri);
         edge2 = vsub (v2 tri) (v0 tri);
         h = cross (direction ray) edge2;
         a = dot edge1 h
     in if \<not> doubleSided tri \<and> a < EPSILON \<and> a > - EPSILON then (False, hit)
        else
          let f = 1 / a;
              s = vsub (origin ray) (v0 tri);
              u = f * dot s h
          in if u < 0 \<or> u > 1 then (False, hit)
             else
               let q = cross s edge1;
                   v = f * dot (direction ray) q
               in if v < 0 \<or> u + v > 1 then (False, hit)
                  else
                    let t = f * dot edge2 q
                    in if t > EPSILON \<and> t < distance hit then
                         let n = normalize_vec (cross edge1 edge2)
                         in (True, hit\<lparr>distance := t,
                                       position := pointAt ray t,
                                       normal := (if doubleSided tri \<and> dot n (direction ray) > 0
                                                  then vneg n else n),
                                       triangle := Some tri\<rparr>)
                       else (False, hit))"

text \<open>The determinant \<open>a\<close> that lines 95-98 compute: \<open>dot(edge1, cross(direction, edge2))\<close>.\<close>

definition determinant :: "Triangle \<Rightarrow> Ray \<Rightarrow> real" where
  "determinant tri ray =
    (let edge1 = vsub (v1 tri) (v0 tri);
         edge2 = vsub (v2 tri) (v0 tri);
         h = cross (direction ray) edge2
     in dot edge1 h)"

section \<open>The integrator (lines 135-203)\<close>

text \<open>The nearest-hit loop of lines 138-146, started from \<open>HitRecord closestHit;\<close>.\<close>

fun closest_scan :: "Triangle list \<Rightarrow> Ray \<Rightarrow> HitRecord \<Rightarrow> HitRecord" where
  "closest_scan [] ray closestHit = closestHit"
| "closest_scan (tri # rest) ray closestHit =
    (case intersectTriangle tri ray HitRecord0 of
       (True, hit) \<Rightarrow>
         if distance hit < distance closestHit then closest_scan rest ray hit
         else closest_scan rest ray closestHit
     | (False, hit) \<Rightarrow> closest_scan rest ray closestHit)"

definition lightPos :: Vector3 where
  "lightPos = Vector3 2 5 1"

text \<open>The shadow loop of lines 177-185; \<open>break\<close> ends it at the first occluder.\<close>

fun shadow_scan :: "Triangle list \<Rightarrow> Ray \<Rightarrow> HitRecord \<Rightarrow> bool" where
  "shadow_scan [] shadowRay closestHit = False"
| "shadow_scan (tri # rest) shadowRay closestHit =
    (case intersectTriangle tri shadowRay HitRecord0 of
       (True, shadowHit) \<Rightarrow>
         if distance shadowHit > 0
            \<and> distance shadowHit < length_vec (vsub lightPos (position closestHit))
         then True
         else shadow_scan rest shadowRay closestHit
     | (False, shadowHit) \<Rightarrow> shadow_scan rest shadowRay closestHit)"

text \<open>The rays of lines 172-174 and 190-192.\<close>

definition shadowRay_of :: "HitRecord \<Rightarrow> Ray" where
  "shadowRay_of closestHit =
    \<lparr>origin = vadd (position closestHit) (vscale (normal closestHit) EPSILON),
     direction = normalize_vec (vsub lightPos (position closestHit))\<rparr>"

definition reflectRay_of :: "Ray \<Rightarrow> HitRecord \<Rightarrow> Ray" where
  "reflectRay_of ray closestHit =
    \<lparr>origin = vadd (position closestHit) (vscale (normal closestHit) EPSILON),
     direction = reflect (direction ray) (normal closestHit)\<rparr>"

text \<open>
  \<open>trace\<close> is written as two functions that call each other: \<open>trace\<close> holds the
  depth test, the nearest-hit scan and the null test of lines 136-149, and \<open>shade\<close>
  holds the rest of the body, lines 151-202, which computes the colour from the
  closest hit and the triangle it points to. \<open>int depth\<close> is an \<open>int\<close>; it only grows
  by one while it is below three.
\<close>

function trace :: "Ray \<Rightarrow> Triangle list \<Rightarrow> int \<Rightarrow> Vector3"
  and shade :: "Ray \<Rightarrow> Triangle list \<Rightarrow> int \<Rightarrow> HitRecord \<Rightarrow> Triangle \<Rightarrow> Vector3" where
  "trace ray triangles depth =
    (if depth > 3 then Vector3 0 0 0
     else
       let closestHit = closest_scan triangles ray HitRecord0 in
       case triangle closestHit of
         None \<Rightarrow> Vector3 (2 / 10) (7 / 10) (8 / 10)
       | Some tri \<Rightarrow> shade ray triangles depth closestHit tri)"
| "shade ray triangles depth closestHit tri =
    (let materialColor = color tri;
         ambientStrength = 3 / 10;
         ambient = vscale materialColor ambientStrength;
         lightDir = normalize_vec (vsub lightPos (position closestHit));
         viewDir = normalize_vec (vsub (origin ray) (position closestHit));
         reflectDir = reflect (vneg lightDir) (normal closestHit);
         diff = max 0 (dot (normal closestHit) lightDir);
         diffuse = vscale materialColor diff;
         specularStrength = 1 / 2;
         spec = (max 0 (dot viewDir reflectDir)) ^ 32;
         specular = vscale (vscale (Vector3 1 1 1) spec) specularStrength;
         inShadow = shadow_scan triangles (shadowRay_of closestHit) closestHit;
         reflection =
           (if depth < 3 \<and> x materialColor > 7 / 10
            then vscale (trace (reflectRay_of ray closestHit) triangles (depth + 1)) (1 / 2)
            else Vector3 0 0 0);
         result = ambient;
         result = (if \<not> inShadow then vadd (vadd result diffuse) specular else result)
     in vadd result reflection)"
  by pat_completeness auto
termination
  by (relation "measure (\<lambda>call. case call of
          Inl (ray, triangles, depth) \<Rightarrow> 2 * nat (4 - depth) + 1
        | Inr (ray, triangles, depth, closestHit, tri) \<Rightarrow> 2 * nat (4 - depth))") auto

declare trace.simps [simp del] shade.simps [simp del]

section \<open>Concrete triangles and rays\<close>

text \<open>
  The triangle with vertices \<open>(0,0,0)\<close>, \<open>(1,0,0)\<close>, \<open>(0,1,0)\<close> lies in the plane
  \<open>z = 0\<close>; its winding gives the geometric normal \<open>(0,0,1)\<close>. The coordinates
  of the triangles and of the rays below are dyadic rationals, which a \<open>float\<close>
  holds exactly.
\<close>

definition tri_xy :: "bool \<Rightarrow> Triangle" where
  "tri_xy ds = Triangle (Vector3 0 0 0) (Vector3 1 0 0) (Vector3 0 1 0) (Vector3 1 0 0) ds"

text \<open>A ray that meets the front face at distance one, at \<open>(1/4, 1/4, 0)\<close>.\<close>

definition ray_front :: Ray where
  "ray_front = \<lparr>origin = Vector3 (1 / 4) (1 / 4) 1, direction = Vector3 0 0 (- 1)\<rparr>"

text \<open>A ray that meets the same point from behind: it runs along the normal.\<close>

definition ray_back :: Ray where
  "ray_back = \<lparr>origin = Vector3 (1 / 4) (1 / 4) (- 1), direction = Vector3 0 0 1\<rparr>"

text \<open>A ray that passes beside the triangle.\<close>

definition ray_miss :: Ray where
  "ray_miss = \<lparr>origin = Vector3 5 5 1, direction = Vector3 0 0 (- 1)\<rparr>"




text \<open>
  A small double- or single-sided triangle with legs of length \<open>2\<^sup>-\<^sup>1\<^sup>6\<close> (about
  \<open>1.5e-5\<close>), and a ray that meets it head-on at distance one. The cross product of
  its edges has length \<open>2\<^sup>-\<^sup>3\<^sup>2\<close>, below the \<open>1e-8\<close> of \<open>normalize\<close>.
\<close>

definition tri_tiny :: "bool \<Rightarrow> Triangle" where
  "tri_tiny ds =
    Triangle (Vector3 0 0 0) (Vector3 (1 / 2 ^ 16) 0 0) (Vector3 0 (1 / 2 ^ 16) 0)
      (Vector3 1 0 0) ds"

definition ray_tiny :: Ray where
  "ray_tiny = \<lparr>origin = Vector3 (1 / 2 ^ 18) (1 / 2 ^ 18) 1, direction = Vector3 0 0 (- 1)\<rparr>"

text \<open>The records that \<open>intersectTriangle\<close> writes for \<open>ray_front\<close> on \<open>tri_xy\<close>.\<close>

definition hit_front :: "bool \<Rightarrow> HitRecord" where
  "hit_front ds =
    \<lparr>position = Vector3 (1 / 4) (1 / 4) 0, normal = Vector3 0 0 1, distance = 1,
     triangle = Some (tri_xy ds)\<rparr>"

text \<open>
  A green copy of the triangle one unit farther along \<open>ray_front\<close>, and the record
  of its hit, at distance two.
\<close>

definition tri_far :: Triangle where
  "tri_far =
    Triangle (Vector3 0 0 (- 1)) (Vector3 1 0 (- 1)) (Vector3 0 1 (- 1)) (Vector3 0 1 0) False"

definition hit_far :: HitRecord where
  "hit_far =
    \<lparr>position = Vector3 (1 / 4) (1 / 4) (- 1), normal = Vector3 0 0 1, distance = 2,
     triangle = Some tri_far\<rparr>"

text \<open>
  A shadow scene. The grey ground triangle lies in the plane \<open>y = 0\<close> and faces up;
  \<open>ray_slant\<close> meets it at \<open>(2, 0, 1)\<close>, straight below the light at \<open>(2, 5, 1)\<close>.
  The occluder lies in the plane \<open>y = 2\<close> and faces down, between that point and
  the light; \<open>ray_slant\<close> itself does not meet it.
\<close>

definition tri_ground :: Triangle where
  "tri_ground =
    Triangle (Vector3 0 0 0) (Vector3 0 0 4) (Vector3 4 0 0) (Vector3 (1 / 2) (1 / 2) (1 / 2))
      False"

definition tri_occluder :: Triangle where
  "tri_occluder =
    Triangle (Vector3 1 2 0) (Vector3 4 2 0) (Vector3 1 2 3) (Vector3 0 0 1) False"

definition ray_slant :: Ray where
  "ray_slant = \<lparr>origin = Vector3 0 1 1, direction = Vector3 2 (- 1) 0\<rparr>"

definition hit_ground :: HitRecord where
  "hit_ground =
    \<lparr>position = Vector3 2 0 1, normal = Vector3 0 1 0, distance = 1,
     triangle = Some tri_ground\<rparr>"

definition hit_occluder :: HitRecord where
  "hit_occluder =
    \<lparr>position = Vector3 2 2 1, normal = Vector3 0 (- 1) 0, distance = 2 - EPSILON,
     triangle = Some tri_occluder\<rparr>"

section \<open>Facts of the vector algebra\<close>

lemma length_axis_x: "length_vec (Vector3 a 0 0) = \<bar>a\<bar>"
  by (simp add: length_vec_def dot_def)

lemma length_axis_y: "length_vec (Vector3 0 a 0) = \<bar>a\<bar>"
  by (simp add: length_vec_def dot_def)

lemma length_axis_z: "length_vec (Vector3 0 0 a) = \<bar>a\<bar>"
  by (simp add: length_vec_def dot_def)

lemma dot_vneg: "dot (vneg n) d = - dot n d"
  by (simp add: dot_def vneg_def)

section \<open>Evaluation of the intersector on the concrete inputs\<close>

lemmas vec_defs =
  vadd_def vsub_def vscale_def vneg_def vdiv_def dot_def cross_def length_vec_def
  normalize_vec_def pointAt_def

lemma tri_xy_fields:
  "v0 (tri_xy ds) = Vector3 0 0 0" "v1 (tri_xy ds) = Vector3 1 0 0"
  "v2 (tri_xy ds) = Vector3 0 1 0" "color (tri_xy ds) = Vector3 1 0 0"
  "doubleSided (tri_xy ds) = ds"
  by (simp_all add: tri_xy_def)

lemma tri_tiny_fields:
  "v0 (tri_tiny ds) = Vector3 0 0 0" "v1 (tri_tiny ds) = Vector3 (1 / 2 ^ 16) 0 0"
  "v2 (tri_tiny ds) = Vector3 0 (1 / 2 ^ 16) 0" "color (tri_tiny ds) = Vector3 1 0 0"
  "doubleSided (tri_tiny ds) = ds"
  by (simp_all add: tri_tiny_def)

lemma ray_back_fields:
  "origin ray_back = Vector3 (1 / 4) (1 / 4) (- 1)" "direction ray_back = Vector3 0 0 1"
  by (simp_all add: ray_back_def)

lemma intersect_front:
  "intersectTriangle (tri_xy ds) ray_front HitRecord0 =
     (True, \<lparr>position = Vector3 (1 / 4) (1 / 4) 0, normal = Vector3 0 0 1, distance = 1,
             triangle = Some (tri_xy ds)\<rparr>)"
  by (simp add: intersectTriangle_def Let_def vec_defs EPSILON_def FLT_MAX_def HitRecord0_def
      tri_xy_def ray_front_def)

lemma intersect_back_double:
  "intersectTriangle (tri_xy True) ray_back HitRecord0 =
     (True, \<lparr>position = Vector3 (1 / 4) (1 / 4) 0, normal = Vector3 0 0 (- 1), distance = 1,
             triangle = Some (tri_xy True)\<rparr>)"
  by (simp add: intersectTriangle_def Let_def vec_defs EPSILON_def FLT_MAX_def HitRecord0_def
      tri_xy_def ray_back_def)

lemma intersect_miss:
  "intersectTriangle (tri_xy ds) ray_miss HitRecord0 = (False, HitRecord0)"
  by (simp add: intersectTriangle_def Let_def vec_defs EPSILON_def FLT_MAX_def HitRecord0_def
      tri_xy_def ray_miss_def)

lemma intersect_tiny:
  "intersectTriangle (tri_tiny True) ray_tiny HitRecord0 =
     (True, \<lparr>position = Vector3 (1 / 2 ^ 18) (1 / 2 ^ 18) 0, normal = Vector3 0 0 (1 / 2 ^ 32),
             distance = 1, triangle = Some (tri_tiny True)\<rparr>)"
  by (simp add: intersectTriangle_def Let_def vsub_def cross_def dot_def pointAt_def vadd_def
      vscale_def vneg_def normalize_vec_def length_axis_z EPSILON_def FLT_MAX_def HitRecord0_def
      tri_tiny_def ray_tiny_def)



lemma HitRecord0_fields:
  "position HitRecord0 = Vector3 0 0 0" "normal HitRecord0 = Vector3 0 0 0"
  "distance HitRecord0 = FLT_MAX" "triangle HitRecord0 = None"
  by (simp_all add: HitRecord0_def)

lemma intersect_front_hit:
  "intersectTriangle (tri_xy ds) ray_front HitRecord0 = (True, hit_front ds)"
  by (simp add: intersect_front hit_front_def)

lemma intersect_far:
  "intersectTriangle tri_far ray_front HitRecord0 = (True, hit_far)"
  by (simp add: intersectTriangle_def Let_def vec_defs EPSILON_def FLT_MAX_def HitRecord0_def
      tri_far_def ray_front_def hit_far_def)

lemma intersect_ground:
  "intersectTriangle tri_ground ray_slant HitRecord0 = (True, hit_ground)"
  by (simp add: intersectTriangle_def Let_def vsub_def cross_def dot_def pointAt_def vadd_def
      vscale_def normalize_vec_def length_axis_y vdiv_def EPSILON_def FLT_MAX_def HitRecord0_def
      tri_ground_def ray_slant_def hit_ground_def)

lemma intersect_occluder_primary:
  "intersectTriangle tri_occluder ray_slant HitRecord0 = (False, HitRecord0)"
  by (simp add: intersectTriangle_def Let_def vsub_def cross_def dot_def pointAt_def vadd_def
      vscale_def normalize_vec_def length_axis_y vdiv_def EPSILON_def FLT_MAX_def HitRecord0_def
      tri_occluder_def ray_slant_def)

lemma shadowRay_ground:
  "shadowRay_of hit_ground = \<lparr>origin = Vector3 2 EPSILON 1, direction = Vector3 0 1 0\<rparr>"
  by (simp add: shadowRay_of_def hit_ground_def lightPos_def vsub_def vadd_def vscale_def
      EPSILON_def normalize_vec_def length_axis_y vdiv_def)

lemma intersect_occluder_shadow:
  "intersectTriangle tri_occluder (shadowRay_of hit_ground) HitRecord0 = (True, hit_occluder)"
  by (simp add: shadowRay_ground intersectTriangle_def Let_def vsub_def cross_def dot_def
      pointAt_def vadd_def vscale_def normalize_vec_def length_axis_y vdiv_def EPSILON_def
      FLT_MAX_def HitRecord0_def tri_occluder_def hit_occluder_def)

lemma scan_ground:
  "closest_scan [tri_occluder, tri_ground] ray_slant HitRecord0 = hit_ground"
  by (simp add: intersect_ground intersect_occluder_primary hit_ground_def HitRecord0_fields
      FLT_MAX_def)

lemma light_distance_ground: "length_vec (vsub lightPos (position hit_ground)) = 5"
  by (simp add: hit_ground_def lightPos_def vsub_def length_axis_y)

section \<open>Accepted hits and the two scans\<close>

lemma intersect_accept:
  assumes "intersectTriangle tri ray hit = (True, h)"
  shows "EPSILON < distance h" and "distance h < distance hit" and "triangle h = Some tri"
  using assms by (auto simp add: intersectTriangle_def Let_def split: if_splits)

section \<open>The nearest-hit scan when nothing is hit\<close>

lemma closest_scan_miss:
  "\<forall>tri\<in>set triangles. \<not> fst (intersectTriangle tri ray HitRecord0) \<Longrightarrow>
     closest_scan triangles ray acc = acc"
  by (induction triangles arbitrary: acc) (auto split: prod.splits bool.splits)

section \<open>The recursion ceiling\<close>

text \<open>
  Claim C6: for every ray, every triangle list and every depth greater than three,
  \<open>trace\<close> returns exactly \<open>(0, 0, 0)\<close>, whatever the ray and the scene are.
\<close>

theorem trace_depth_ceiling:
  "depth > 3 \<Longrightarrow> trace ray triangles depth = Vector3 0 0 0"
  by (simp add: trace.simps)

theorem trace_depth_ceiling_witness:
  "(4::int) > 3 \<and> trace ray_front [tri_xy False] 4 = Vector3 0 0 0"
  using trace_depth_ceiling [of 4 ray_front "[tri_xy False]"] by simp

section \<open>Rays that hit nothing\<close>

text \<open>
  Claim C7: on an empty triangle sequence \<open>trace\<close> resolves every ray to the
  background colour \<open>(0.2, 0.7, 0.8)\<close> and does not fault, and in every scene a ray
  that hits no triangle returns exactly that colour. The depth is at most three,
  which is the range in which \<open>trace\<close> scans the scene: the program enters \<open>trace\<close>
  at depth zero and recurses only from a depth below three.
\<close>

theorem trace_miss_background:
  "depth \<le> 3 \<Longrightarrow>
     trace ray [] depth = Vector3 (2 / 10) (7 / 10) (8 / 10) \<and>
     ((\<forall>tri\<in>set triangles. \<not> fst (intersectTriangle tri ray HitRecord0)) \<longrightarrow>
        trace ray triangles depth = Vector3 (2 / 10) (7 / 10) (8 / 10))"
  by (simp add: trace.simps closest_scan_miss HitRecord0_def)

theorem trace_miss_background_witness:
  "(0::int) \<le> 3 \<and>
   trace ray_miss [] 0 = Vector3 (2 / 10) (7 / 10) (8 / 10) \<and>
   \<not> fst (intersectTriangle (tri_xy False) ray_miss HitRecord0) \<and>
   \<not> fst (intersectTriangle (tri_xy True) ray_miss HitRecord0) \<and>
   trace ray_miss [tri_xy False, tri_xy True] 0 = Vector3 (2 / 10) (7 / 10) (8 / 10)"
  using trace_miss_background [of 0 ray_miss "[tri_xy False, tri_xy True]"]
  by (simp add: intersect_miss)

section \<open>The frame of the intersector\<close>

text \<open>
  Claim C10: whenever \<open>intersectTriangle\<close> returns false, the hit record passed to it
  is left entirely unchanged (position, normal, distance and triangle reference);
  the record is changed only on a true return, and a true return requires the
  candidate distance, which is then stored in the record, to be strictly less than
  the distance the record came in with.
\<close>

theorem intersectTriangle_frame:
  "(\<not> fst (intersectTriangle tri ray hit) \<longrightarrow> snd (intersectTriangle tri ray hit) = hit) \<and>
   (fst (intersectTriangle tri ray hit) \<longrightarrow>
      distance (snd (intersectTriangle tri ray hit)) < distance hit)"
  by (simp add: intersectTriangle_def Let_def)

theorem intersectTriangle_frame_witness:
  "\<not> fst (intersectTriangle (tri_xy False) ray_miss HitRecord0) \<and>
   snd (intersectTriangle (tri_xy False) ray_miss HitRecord0) = HitRecord0 \<and>
   fst (intersectTriangle (tri_xy False) ray_front HitRecord0) \<and>
   distance (snd (intersectTriangle (tri_xy False) ray_front HitRecord0)) < distance HitRecord0"
  using intersectTriangle_frame [of "tri_xy False" ray_miss HitRecord0]
    intersectTriangle_frame [of "tri_xy False" ray_front HitRecord0]
  by (simp add: intersect_miss intersect_front)

section \<open>Back faces of single-sided triangles\<close>

text \<open>
  Claim C2: for every single-sided triangle and every ray that approaches it from
  the back face (the ray direction has a positive dot product with
  \<open>cross(v1 - v0, v2 - v0)\<close>, that is, the determinant \<open>a\<close> is negative),
  \<open>intersectTriangle\<close> reports no hit. The test under the comment "Backface culling"
  rejects only \<open>-EPSILON < a < EPSILON\<close>; the code evaluated on a ray that runs along
  the normal of a single-sided triangle, with \<open>a = -1\<close>, reports a hit at distance
  one, with the normal pointing along the ray.
\<close>

theorem intersect_single_sided_back_face:
  "\<not> doubleSided (tri_xy False) \<and>
   dot (direction ray_back)
     (cross (vsub (v1 (tri_xy False)) (v0 (tri_xy False)))
        (vsub (v2 (tri_xy False)) (v0 (tri_xy False)))) = 1 \<and>
   determinant (tri_xy False) ray_back = - 1 \<and>
   intersectTriangle (tri_xy False) ray_back HitRecord0 =
     (True, \<lparr>position = Vector3 (1 / 4) (1 / 4) 0, normal = Vector3 0 0 1, distance = 1,
             triangle = Some (tri_xy False)\<rparr>)"
  by (simp add: intersectTriangle_def determinant_def Let_def vec_defs EPSILON_def FLT_MAX_def
      HitRecord0_def tri_xy_def ray_back_def)

section \<open>Rays parallel to the plane of the triangle\<close>




section \<open>The normal of a double-sided hit\<close>

text \<open>
  Claim C5, as stated: for every double-sided triangle and every ray whose hit it
  accepts, the normal of the returned record has a dot product of at most zero with
  the ray direction, and it is the unit geometric normal
  \<open>normalize(cross(v1 - v0, v2 - v0))\<close>, flipped whenever that normal points with the
  ray. \<open>normalize\<close> divides only when \<open>len > 1e-8\<close>: the hit on the small triangle
  is accepted with the cross product itself as the normal, of length \<open>2\<^sup>-\<^sup>3\<^sup>2\<close>.
  Every number of that computation is a power of two or a quarter, and exact in a
  \<open>float\<close>.
\<close>

theorem tiny_triangle_normal_not_unit:
  "doubleSided (tri_tiny True) \<and>
   fst (intersectTriangle (tri_tiny True) ray_tiny HitRecord0) \<and>
   normal (snd (intersectTriangle (tri_tiny True) ray_tiny HitRecord0)) = Vector3 0 0 (1 / 2 ^ 32) \<and>
   length_vec (normal (snd (intersectTriangle (tri_tiny True) ray_tiny HitRecord0))) \<noteq> 1"
  by (simp add: intersect_tiny length_axis_z tri_tiny_fields)

text \<open>
  Claim C5, amended: for every double-sided triangle and every ray whose hit it
  accepts, the normal of the returned record is what \<open>normalize\<close> returns for
  \<open>cross(v1 - v0, v2 - v0)\<close>, negated exactly when that vector has a positive dot
  product with the ray direction; the dot product of the returned normal with the
  ray direction is never positive. The normal need not be a unit vector.
\<close>

theorem double_sided_normal_faces_ray:
  assumes "doubleSided tri" and "fst (intersectTriangle tri ray hit)"
  shows "normal (snd (intersectTriangle tri ray hit)) =
           (let n = normalize_vec (cross (vsub (v1 tri) (v0 tri)) (vsub (v2 tri) (v0 tri)))
            in if dot n (direction ray) > 0 then vneg n else n) \<and>
         \<not> 0 < dot (normal (snd (intersectTriangle tri ray hit))) (direction ray)"
proof -
  let ?n = "normalize_vec (cross (vsub (v1 tri) (v0 tri)) (vsub (v2 tri) (v0 tri)))"
  from assms have n: "normal (snd (intersectTriangle tri ray hit)) =
      (if dot ?n (direction ray) > 0 then vneg ?n else ?n)"
    by (auto simp add: intersectTriangle_def Let_def split: if_splits)
  have sign: "\<not> 0 < dot (if dot ?n (direction ray) > 0 then vneg ?n else ?n) (direction ray)"
    by (simp add: dot_vneg)
  show ?thesis
    unfolding n using sign by (simp add: Let_def)
qed

theorem double_sided_normal_faces_ray_witness:
  "doubleSided (tri_xy True) \<and>
   fst (intersectTriangle (tri_xy True) ray_back HitRecord0) \<and>
   normalize_vec (cross (vsub (v1 (tri_xy True)) (v0 (tri_xy True)))
                    (vsub (v2 (tri_xy True)) (v0 (tri_xy True)))) = Vector3 0 0 1 \<and>
   0 < dot (Vector3 0 0 1) (direction ray_back) \<and>
   normal (snd (intersectTriangle (tri_xy True) ray_back HitRecord0)) = Vector3 0 0 (- 1) \<and>
   \<not> 0 < dot (normal (snd (intersectTriangle (tri_xy True) ray_back HitRecord0)))
           (direction ray_back)"
  using double_sided_normal_faces_ray [of "tri_xy True" ray_back HitRecord0]
  by (simp add: intersect_back_double length_axis_z tri_xy_fields ray_back_fields vsub_def
      cross_def dot_def normalize_vec_def Let_def vdiv_def vneg_def)

section \<open>The nearest hit\<close>

lemma closest_scan_le_acc: "distance (closest_scan ts ray acc) \<le> distance acc"
proof (induction ts arbitrary: acc)
  case Nil
  show ?case by simp
next
  case (Cons tri rest)
  show ?case
  proof (cases "intersectTriangle tri ray HitRecord0")
    case (Pair found hit)
    show ?thesis
    proof (cases "found \<and> distance hit < distance acc")
      case True
      with Pair have "closest_scan (tri # rest) ray acc = closest_scan rest ray hit" by simp
      with Cons.IH [of hit] True show ?thesis by simp
    next
      case False
      with Pair have "closest_scan (tri # rest) ray acc = closest_scan rest ray acc"
        by (cases found) auto
      with Cons.IH [of acc] show ?thesis by simp
    qed
  qed
qed

lemma closest_scan_minimal:
  assumes "tri \<in> set ts" and "intersectTriangle tri ray HitRecord0 = (True, h)"
  shows "distance (closest_scan ts ray acc) \<le> distance h"
  using assms
proof (induction ts arbitrary: acc)
  case Nil
  then show ?case by simp
next
  case (Cons t rest)
  show ?case
  proof (cases "intersectTriangle t ray HitRecord0")
    case (Pair found hit)
    show ?thesis
    proof (cases "tri = t")
      case True
      with Cons.prems Pair have fh: "found" "hit = h" by simp_all
      show ?thesis
      proof (cases "distance h < distance acc")
        case True
        with Pair fh have "closest_scan (t # rest) ray acc = closest_scan rest ray h" by simp
        with closest_scan_le_acc [of rest ray h] show ?thesis by simp
      next
        case False
        with Pair fh have "closest_scan (t # rest) ray acc = closest_scan rest ray acc" by simp
        with closest_scan_le_acc [of rest ray acc] False show ?thesis by simp
      qed
    next
      case False
      with Cons.prems have mem: "tri \<in> set rest" by simp
      have "closest_scan (t # rest) ray acc = closest_scan rest ray hit
          \<or> closest_scan (t # rest) ray acc = closest_scan rest ray acc"
        using Pair by (cases found) auto
      with Cons.IH [OF mem Cons.prems(2)] show ?thesis by auto
    qed
  qed
qed

lemma closest_scan_selects:
  "closest_scan ts ray acc = acc \<or>
   (\<exists>tri\<in>set ts. intersectTriangle tri ray HitRecord0 = (True, closest_scan ts ray acc))"
proof (induction ts arbitrary: acc)
  case Nil
  show ?case by simp
next
  case (Cons t rest)
  show ?case
  proof (cases "intersectTriangle t ray HitRecord0")
    case (Pair found hit)
    show ?thesis
    proof (cases "found \<and> distance hit < distance acc")
      case True
      with Pair have step: "closest_scan (t # rest) ray acc = closest_scan rest ray hit" by simp
      from Cons.IH [of hit] show ?thesis
      proof
        assume "closest_scan rest ray hit = hit"
        with step Pair True show ?thesis by simp
      next
        assume "\<exists>tri\<in>set rest. intersectTriangle tri ray HitRecord0 = (True, closest_scan rest ray hit)"
        with step show ?thesis by auto
      qed
    next
      case False
      with Pair have step: "closest_scan (t # rest) ray acc = closest_scan rest ray acc"
        by (cases found) auto
      from Cons.IH [of acc] step show ?thesis by auto
    qed
  qed
qed

lemma closest_scan_attained:
  assumes "tri \<in> set ts" and "intersectTriangle tri ray HitRecord0 = (True, h)"
  shows "\<exists>t\<in>set ts. intersectTriangle t ray HitRecord0 = (True, closest_scan ts ray HitRecord0)"
proof -
  from assms have "distance (closest_scan ts ray HitRecord0) \<le> distance h"
    by (rule closest_scan_minimal)
  also from assms(2) have "distance h < distance HitRecord0"
    by (rule intersect_accept)
  finally have "closest_scan ts ray HitRecord0 \<noteq> HitRecord0" by auto
  with closest_scan_selects [of ts ray HitRecord0] show ?thesis by simp
qed

text \<open>
  Claim C1: for every ray and every triangle list, the closest hit that the linear
  scan of \<open>trace\<close> selects before shading has the least distance among all triangles
  whose intersection test accepts the ray, each with a distance above \<open>EPSILON\<close>;
  it is the record of one of them, and never the record of a triangle when another
  accepted one is nearer; at a depth of at most three \<open>trace\<close> returns \<open>shade\<close> of
  that record. Consequently, when a ray hits a nearer and a farther triangle, the
  colour returned is the shading of the nearer hit: if every other accepted hit is
  strictly farther than that of \<open>near\<close>, the scan selects the record of \<open>near\<close> and
  \<open>trace\<close> returns \<open>shade\<close> of that record and of \<open>near\<close>.
\<close>

theorem closest_hit_is_nearest:
  assumes "near \<in> set triangles" and "intersectTriangle near ray HitRecord0 = (True, hn)"
  shows "EPSILON < distance hn \<and>
         distance (closest_scan triangles ray HitRecord0) \<le> distance hn \<and>
         (\<exists>tri\<in>set triangles.
            intersectTriangle tri ray HitRecord0 = (True, closest_scan triangles ray HitRecord0) \<and>
            (depth \<le> 3 \<longrightarrow>
               trace ray triangles depth =
                 shade ray triangles depth (closest_scan triangles ray HitRecord0) tri)) \<and>
         (\<forall>far hf. intersectTriangle far ray HitRecord0 = (True, hf) \<and> distance hn < distance hf \<longrightarrow>
            closest_scan triangles ray HitRecord0 \<noteq> hf) \<and>
         ((\<forall>tri\<in>set triangles. \<forall>hit. intersectTriangle tri ray HitRecord0 = (True, hit) \<longrightarrow>
              hit = hn \<or> distance hn < distance hit) \<longrightarrow>
            closest_scan triangles ray HitRecord0 = hn \<and>
            (depth \<le> 3 \<longrightarrow> trace ray triangles depth = shade ray triangles depth hn near))"
proof (intro conjI allI impI)
  show "EPSILON < distance hn" using assms(2) by (rule intersect_accept)
next
  show le: "distance (closest_scan triangles ray HitRecord0) \<le> distance hn"
    using assms by (rule closest_scan_minimal)
  fix far hf
  assume "intersectTriangle far ray HitRecord0 = (True, hf) \<and> distance hn < distance hf"
  with le show "closest_scan triangles ray HitRecord0 \<noteq> hf" by auto
next
  from closest_scan_attained [OF assms] obtain t where
    t: "t \<in> set triangles"
      "intersectTriangle t ray HitRecord0 = (True, closest_scan triangles ray HitRecord0)"
    by blast
  from t(2) have "triangle (closest_scan triangles ray HitRecord0) = Some t"
    by (rule intersect_accept)
  then have "depth \<le> 3 \<longrightarrow>
      trace ray triangles depth =
        shade ray triangles depth (closest_scan triangles ray HitRecord0) t"
    by (simp add: trace.simps)
  with t show "\<exists>tri\<in>set triangles.
      intersectTriangle tri ray HitRecord0 = (True, closest_scan triangles ray HitRecord0) \<and>
      (depth \<le> 3 \<longrightarrow>
         trace ray triangles depth =
           shade ray triangles depth (closest_scan triangles ray HitRecord0) tri)"
    by blast
next
  assume uniq: "\<forall>tri\<in>set triangles. \<forall>hit. intersectTriangle tri ray HitRecord0 = (True, hit) \<longrightarrow>
              hit = hn \<or> distance hn < distance hit"
  from closest_scan_attained [OF assms] obtain t where
    t: "t \<in> set triangles" "intersectTriangle t ray HitRecord0 = (True, closest_scan triangles ray HitRecord0)"
    by blast
  from closest_scan_minimal [OF assms] have "distance (closest_scan triangles ray HitRecord0) \<le> distance hn" .
  with uniq t show sel: "closest_scan triangles ray HitRecord0 = hn" by fastforce
  assume "depth \<le> 3"
  moreover from assms(2) have "triangle hn = Some near" by (rule intersect_accept)
  ultimately show "trace ray triangles depth = shade ray triangles depth hn near"
    using sel by (simp add: trace.simps)
qed

theorem closest_hit_is_nearest_witness:
  "tri_xy False \<in> set [tri_far, tri_xy False] \<and>
   intersectTriangle (tri_xy False) ray_front HitRecord0 = (True, hit_front False) \<and>
   intersectTriangle tri_far ray_front HitRecord0 = (True, hit_far) \<and>
   distance (hit_front False) < distance hit_far \<and>
   EPSILON < distance (hit_front False) \<and>
   closest_scan [tri_far, tri_xy False] ray_front HitRecord0 = hit_front False \<and>
   closest_scan [tri_far, tri_xy False] ray_front HitRecord0 \<noteq> hit_far \<and>
   trace ray_front [tri_far, tri_xy False] 0 =
     shade ray_front [tri_far, tri_xy False] 0 (hit_front False) (tri_xy False)"
proof -
  have mem: "tri_xy False \<in> set [tri_far, tri_xy False]"
    by simp
  have near: "intersectTriangle (tri_xy False) ray_front HitRecord0 = (True, hit_front False)"
    by (rule intersect_front_hit)
  have far: "intersectTriangle tri_far ray_front HitRecord0 = (True, hit_far)"
    by (rule intersect_far)
  have lt: "distance (hit_front False) < distance hit_far"
    by (simp add: hit_front_def hit_far_def)
  have only: "\<forall>tri\<in>set [tri_far, tri_xy False]. \<forall>hit.
      intersectTriangle tri ray_front HitRecord0 = (True, hit) \<longrightarrow>
      hit = hit_front False \<or> distance (hit_front False) < distance hit"
    using lt by (auto simp add: intersect_front_hit intersect_far)
  note nearest = closest_hit_is_nearest [OF mem near, of 0]
  from nearest have eps: "EPSILON < distance (hit_front False)"
    by blast
  from nearest far lt
  have differs: "closest_scan [tri_far, tri_xy False] ray_front HitRecord0 \<noteq> hit_far"
    by blast
  from nearest only
  have sel: "closest_scan [tri_far, tri_xy False] ray_front HitRecord0 = hit_front False"
    and col: "trace ray_front [tri_far, tri_xy False] 0 =
      shade ray_front [tri_far, tri_xy False] 0 (hit_front False) (tri_xy False)"
    by simp_all
  from mem near far lt eps sel differs col show ?thesis
    by blast
qed

section \<open>Shadows\<close>

lemma shadow_scan_iff:
  "shadow_scan ts sr ch \<longleftrightarrow>
     (\<exists>tri\<in>set ts. \<exists>sh. intersectTriangle tri sr HitRecord0 = (True, sh) \<and> 0 < distance sh
        \<and> distance sh < length_vec (vsub lightPos (position ch)))"
proof (induction ts)
  case Nil
  show ?case by simp
next
  case (Cons t rest)
  show ?case
  proof (cases "intersectTriangle t sr HitRecord0")
    case (Pair found sh)
    with Cons.IH show ?thesis by (cases found) auto
  qed
qed

text \<open>
  Claim C4: for every scene and every ray on which \<open>trace\<close> finds a nearest hit (the
  depth is at most three and the scan ends with a record that points to a
  triangle), if \<open>intersectTriangle\<close> reports for some triangle of the scene a hit of
  the shadow ray (from \<open>hitPosition + normal * EPSILON\<close> towards the light at
  \<open>(2, 5, 1)\<close>) at a distance strictly between zero and the distance from the hit
  position to the light, then the diffuse and the specular term are left out of
  the returned colour, which is the ambient term \<open>materialColor * 0.3\<close> plus the
  reflection contribution only.
\<close>

theorem shadowed_hit_is_ambient_plus_reflection:
  assumes "depth \<le> 3"
    and "closest_scan triangles ray HitRecord0 = closestHit"
    and "triangle closestHit = Some tri"
    and "occluder \<in> set triangles"
    and "intersectTriangle occluder (shadowRay_of closestHit) HitRecord0 = (True, shadowHit)"
    and "0 < distance shadowHit"
    and "distance shadowHit < length_vec (vsub lightPos (position closestHit))"
  shows "trace ray triangles depth =
           vadd (vscale (color tri) (3 / 10))
             (if depth < 3 \<and> x (color tri) > 7 / 10
              then vscale (trace (reflectRay_of ray closestHit) triangles (depth + 1)) (1 / 2)
              else Vector3 0 0 0)"
proof -
  from assms(4-7) have "shadow_scan triangles (shadowRay_of closestHit) closestHit"
    unfolding shadow_scan_iff by blast
  then have "shade ray triangles depth closestHit tri =
           vadd (vscale (color tri) (3 / 10))
             (if depth < 3 \<and> x (color tri) > 7 / 10
              then vscale (trace (reflectRay_of ray closestHit) triangles (depth + 1)) (1 / 2)
              else Vector3 0 0 0)"
    by (simp add: shade.simps Let_def)
  with assms(1-3) show ?thesis by (simp add: trace.simps)
qed

theorem shadowed_hit_is_ambient_plus_reflection_witness:
  "(0::int) \<le> 3 \<and>
   closest_scan [tri_occluder, tri_ground] ray_slant HitRecord0 = hit_ground \<and>
   triangle hit_ground = Some tri_ground \<and>
   tri_occluder \<in> set [tri_occluder, tri_ground] \<and>
   intersectTriangle tri_occluder (shadowRay_of hit_ground) HitRecord0 = (True, hit_occluder) \<and>
   0 < distance hit_occluder \<and>
   distance hit_occluder < length_vec (vsub lightPos (position hit_ground)) \<and>
   trace ray_slant [tri_occluder, tri_ground] 0 = Vector3 (3 / 20) (3 / 20) (3 / 20)"
proof -
  have scan: "closest_scan [tri_occluder, tri_ground] ray_slant HitRecord0 = hit_ground"
    by (rule scan_ground)
  have tri: "triangle hit_ground = Some tri_ground"
    by (simp add: hit_ground_def)
  have mem: "tri_occluder \<in> set [tri_occluder, tri_ground]"
    by simp
  have occ: "intersectTriangle tri_occluder (shadowRay_of hit_ground) HitRecord0 = (True, hit_occluder)"
    by (rule intersect_occluder_shadow)
  have pos: "0 < distance hit_occluder"
    by (simp add: hit_occluder_def EPSILON_def)
  have near: "distance hit_occluder < length_vec (vsub lightPos (position hit_ground))"
    by (simp add: light_distance_ground hit_occluder_def EPSILON_def)
  have "trace ray_slant [tri_occluder, tri_ground] 0 =
      vadd (vscale (color tri_ground) (3 / 10))
        (if (0::int) < 3 \<and> x (color tri_ground) > 7 / 10
         then vscale (trace (reflectRay_of ray_slant hit_ground) [tri_occluder, tri_ground] (0 + 1)) (1 / 2)
         else Vector3 0 0 0)"
    using shadowed_hit_is_ambient_plus_reflection [OF _ scan tri mem occ pos near, of 0] by simp
  then have "trace ray_slant [tri_occluder, tri_ground] 0 = Vector3 (3 / 20) (3 / 20) (3 / 20)"
    by (simp add: tri_ground_def vadd_def vscale_def)
  with scan tri mem occ pos near show ?thesis by simp
qed

end
